theory Spec2Isabelle
  imports Main
begin

section \<open>Text and bit-sequences (utils.coding)\<close>

text \<open>
  A message is a Python \<open>str\<close>. The model represents a text by the bytes of its encoding:
  a \<^typ>\<open>string\<close> is a list of 8-bit characters, so \<^const>\<open>length\<close> counts bytes.
  A bit-sequence is a text whose characters are \<open>0\<close> and \<open>1\<close>.
\<close>

definition bit_char :: "bool \<Rightarrow> char" where
  "bit_char b = (if b then CHR ''1'' else CHR ''0'')"

definition is_bit :: "char \<Rightarrow> bool" where
  "is_bit c = (c = CHR ''0'' \<or> c = CHR ''1'')"

text \<open>
  Modelled from the spec: \<open>utils.coding.string_to_bits\<close> (the spec's \<open>textToBits\<close>) is
  not among the sources. The spec: it "produces a sequence of characters, each 0 or 1,
  representing the bit pattern of s's byte-level encoding, most-significant-bit first
  within each byte, bytes in original order". \<^const>\<open>digit7\<close> is the most significant
  bit of a byte.
\<close>

definition byte_to_bits :: "char \<Rightarrow> string" where
  "byte_to_bits c =
     map bit_char [digit7 c, digit6 c, digit5 c, digit4 c, digit3 c, digit2 c, digit1 c, digit0 c]"

fun string_to_bits :: "string \<Rightarrow> string" where
  "string_to_bits [] = []"
| "string_to_bits (c # s) = byte_to_bits c @ string_to_bits s"

text \<open>
  Modelled from the spec: \<open>utils.coding.bits_to_string\<close> (the spec's \<open>bitsToText\<close>) is
  not among the sources. The spec: it is the "exact inverse" of \<open>textToBits\<close>. The model
  reads the bit-sequence eight characters at a time, most significant bit first; a
  character counts as a set bit when it is \<open>1\<close>. The spec gives no meaning to a trailing
  group of fewer than eight characters; the model produces no byte for it.
\<close>

fun bits_to_string :: "string \<Rightarrow> string" where
  "bits_to_string (b7 # b6 # b5 # b4 # b3 # b2 # b1 # b0 # bits) =
     Char (b0 = CHR ''1'') (b1 = CHR ''1'') (b2 = CHR ''1'') (b3 = CHR ''1'')
          (b4 = CHR ''1'') (b5 = CHR ''1'') (b6 = CHR ''1'') (b7 = CHR ''1'')
       # bits_to_string bits"
| "bits_to_string _ = []"

section \<open>Collaborators that are not among the sources\<close>

text \<open>
  An address is the port of a local endpoint. Durations (the receive timeout, the pacing
  interval, the time until a datagram arrives) are counted in ticks of one clock.
\<close>

type_synonym port = string

datatype error = TransportError | UnboundLocalError

text \<open>
  The process-wide constants of \<open>utils.constant\<close> (\<open>Mode.LIST\<close>, \<open>MessageType.LIST\<close>,
  \<open>Network.IN_NE_BUFSIZE\<close>, \<open>Network.FLOW_INTERVAL\<close>, \<open>Network.RECV_TIMEOUT\<close>) are not
  among the sources: every function that reads one takes the record of them as a
  parameter. \<open>Mode.LIST\<close> and \<open>MessageType.LIST\<close> are lists of codes, so that Python's
  \<open>in\<close> is membership.
\<close>

record constants =
  Mode_LIST :: "string list"
  MessageType_LIST :: "string list"
  IN_NE_BUFSIZE :: nat
  FLOW_INTERVAL :: nat
  RECV_TIMEOUT :: nat

text \<open>
  \<open>utils.constant.InputType\<close>: the five documented categories. Python checks no type at the
  call, so \<open>receive_from_user\<close> can be handed any other value: \<open>Other\<close> stands for those.
\<close>

datatype InputType = MODE | DST | MSGTYPE | TEXT | FILE | Other string

subsection \<open>The datagram endpoint (layer._abstract.AbstractLayer)\<close>

text \<open>
  The endpoint a layer is bound to. \<open>arrivals\<close> are the datagrams that will reach it, in
  order, each as (ticks after the previous event at which it arrives, payload, sender
  address). \<open>raw\<close> and \<open>raw_sender\<close> are the payload and sender that \<open>_receive\<close> hands back
  when it times out, which the spec leaves unspecified.
\<close>

type_synonym datagram = "nat \<times> string \<times> port"

record endpoint =
  arrivals :: "datagram list"
  raw :: string
  raw_sender :: port

definition sender :: "datagram \<Rightarrow> port" where
  "sender d = snd (snd d)"

definition payload :: "datagram \<Rightarrow> string" where
  "payload d = fst (snd d)"

text \<open>
  Modelled from the spec: \<open>AbstractLayer._receive\<close> is not among the sources. The spec
  (4.1): \<open>receive(bufferSize, timeout) -> (payload, senderAddress, success)\<close> "blocks until a
  datagram arrives or timeout elapses. On timeout, returns success=false and an
  unspecified payload [...]. When timeout is unspecified/zero for a caller, blocking is
  indefinite". The result \<open>None\<close> is a call that never returns: indefinite blocking with no
  datagram left to arrive. The spec gives the buffer size no effect on the triple
  returned, and the model gives it none.
\<close>

definition AbstractLayer_receive ::
  "nat option \<Rightarrow> nat option \<Rightarrow> endpoint \<Rightarrow> ((string \<times> port \<times> bool) \<times> endpoint) option" where
  "AbstractLayer_receive bufsize timeout e =
     (case (if timeout = Some 0 then None else timeout) of
        None \<Rightarrow>
          (case arrivals e of
             [] \<Rightarrow> None
           | (t, message, port) # ds \<Rightarrow> Some ((message, port, True), e\<lparr>arrivals := ds\<rparr>))
      | Some limit \<Rightarrow>
          (case arrivals e of
             [] \<Rightarrow> Some ((raw e, raw_sender e, False), e)
           | (t, message, port) # ds \<Rightarrow>
               if t < limit then Some ((message, port, True), e\<lparr>arrivals := ds\<rparr>)
               else Some ((raw e, raw_sender e, False),
                          e\<lparr>arrivals := (t - limit, message, port) # ds\<rparr>)))"

text \<open>
  What a layer does to the outside, in order: it sleeps, and it hands a datagram to the
  transport.
\<close>

datatype event = Sleep nat | Send string port

text \<open>
  Modelled from the spec: \<open>AbstractLayer._send\<close> is not among the sources. The spec (4.1):
  \<open>send(payload, destinationAddress) -> bytesSent\<close> "transmits payload to the given address;
  fails with TransportError if the underlying medium rejects the payload". Whether the
  medium accepts a datagram is the parameter \<open>accepts\<close>.
\<close>

definition AbstractLayer_send ::
  "(string \<Rightarrow> port \<Rightarrow> bool) \<Rightarrow> string \<Rightarrow> port \<Rightarrow> event list \<Rightarrow> (error + nat) \<times> event list" where
  "AbstractLayer_send accepts message port tr =
     (if accepts message port then (Inr (length message), tr @ [Send message port])
      else (Inl TransportError, tr))"

definition sleep :: "nat \<Rightarrow> event list \<Rightarrow> event list" where
  "sleep secs tr = tr @ [Sleep secs]"

subsection \<open>The console\<close>

text \<open>
  \<open>stdin\<close> holds the lines the user types, in order; \<open>stdout\<close> what has been written, one
  entry per \<open>print\<close> call or prompt. \<open>input\<close> writes its prompt and takes the next line;
  when the user types nothing more it waits, and the call never returns (\<open>None\<close>). The end
  of the input stream, at which Python's \<open>input\<close> raises EOFError, is not a line typed and
  has no place in this console.
\<close>

record console =
  stdin :: "string list"
  stdout :: "string list"

definition print :: "string \<Rightarrow> console \<Rightarrow> console" where
  "print line c = c\<lparr>stdout := stdout c @ [line]\<rparr>"

definition input :: "string \<Rightarrow> console \<Rightarrow> (string \<times> console) option" where
  "input prompt c =
     (case stdin c of
        [] \<Rightarrow> None
      | line # rest \<Rightarrow> Some (line, c\<lparr>stdin := rest, stdout := stdout c @ [prompt]\<rparr>))"

text \<open>Python's \<open>str.center\<close> with a space as the fill character.\<close>

definition center :: "string \<Rightarrow> nat \<Rightarrow> string" where
  "center s width =
     (let pad = width - length s;
          left = pad div 2 + (if odd pad \<and> odd width then 1 else 0)
      in replicate left CHR '' '' @ s @ replicate (pad - left) CHR '' '')"

text \<open>\<open>re.fullmatch(r"[1-9]", s)\<close>: the whole of \<open>s\<close> is one character from \<open>1\<close> to \<open>9\<close>.\<close>

definition fullmatch_1_9 :: "string \<Rightarrow> bool" where
  "fullmatch_1_9 s = (case s of [c] \<Rightarrow> c \<in> set ''123456789'' | _ \<Rightarrow> False)"

section \<open>The Application layer (layer/app.py)\<close>

record AbstractLayer =
  self_port :: port

record AppLayer = AbstractLayer +
  device_id :: string
  net :: port

text \<open>
  \<open>receive_from_net\<close>: \<open>port = None\<close>, then the loop \<open>while port != self._net\<close> around
  \<open>self._receive(bufsize=Network.IN_NE_BUFSIZE)\<close>, then \<open>return message\<close>. The loop
  variables \<open>message\<close> and \<open>port\<close> are \<open>None\<close> while unassigned; returning an unassigned
  \<open>message\<close> is Python's UnboundLocalError.
\<close>

function receive_from_net_loop ::
  "constants \<Rightarrow> AppLayer \<Rightarrow> string option \<Rightarrow> port option \<Rightarrow> endpoint
     \<Rightarrow> ((error + string) \<times> endpoint) option" where
  "receive_from_net_loop k self message port e =
     (if port \<noteq> Some (net self) then
        (case AbstractLayer_receive (Some (IN_NE_BUFSIZE k)) None e of
           None \<Rightarrow> None
         | Some ((message', port', _), e') \<Rightarrow>
             receive_from_net_loop k self (Some message') (Some port') e')
      else
        (case message of
           None \<Rightarrow> Some (Inl UnboundLocalError, e)
         | Some m \<Rightarrow> Some (Inr m, e)))"
  by pat_completeness auto
termination
  by (relation "measure (\<lambda>(k, self, message, port, e). length (arrivals e))")
     (auto simp: AbstractLayer_receive_def split: list.splits)

definition receive_from_net ::
  "constants \<Rightarrow> AppLayer \<Rightarrow> endpoint \<Rightarrow> ((error + string) \<times> endpoint) option" where
  "receive_from_net k self e = receive_from_net_loop k self None None e"

definition send_to_net ::
  "(string \<Rightarrow> port \<Rightarrow> bool) \<Rightarrow> AppLayer \<Rightarrow> string \<Rightarrow> event list \<Rightarrow> (error + nat) \<times> event list" where
  "send_to_net accepts self message tr = AbstractLayer_send accepts message (net self) tr"

subsection \<open>Keyboard input\<close>

text \<open>\<open>_get_mode_from_user\<close>: the menu, then the loop \<open>while True\<close>.\<close>

definition mode_menu :: string where
  "mode_menu =
     replicate 29 CHR ''-'' @ [CHR 0x0A]
     @ ''|'' @ center ''Select Mode'' 27 @ ''|'' @ [CHR 0x0A]
     @ ''| 1::Receive     2::Unicast |'' @ [CHR 0x0A]
     @ ''| 3::Broadcast   4::Quit    |'' @ [CHR 0x0A]
     @ replicate 29 CHR ''-''"

function get_mode_loop :: "constants \<Rightarrow> console \<Rightarrow> (string \<times> console) option" where
  "get_mode_loop k c =
     (case input ''>>> '' c of
        None \<Rightarrow> None
      | Some (mode, c') \<Rightarrow>
          if mode \<in> set (Mode_LIST k) then Some (mode, c')
          else get_mode_loop k (print ''[Warning] Invalid mode.'' c'))"
  by pat_completeness auto
termination
  by (relation "measure (\<lambda>(k, c). length (stdin c))")
     (auto simp: input_def print_def split: list.splits)

definition get_mode_from_user :: "constants \<Rightarrow> console \<Rightarrow> (string \<times> console) option" where
  "get_mode_from_user k c = get_mode_loop k (print mode_menu c)"

text \<open>
  \<open>_get_dst_from_user\<close>: each \<open>continue\<close> goes back to the head of the loop; the value
  returned is the f-string \<open>1{device_id}300\<close>.
\<close>

function get_dst_loop :: "AppLayer \<Rightarrow> console \<Rightarrow> (string \<times> console) option" where
  "get_dst_loop self c =
     (case input ''>>> '' c of
        None \<Rightarrow> None
      | Some (dev, c') \<Rightarrow>
          if \<not> fullmatch_1_9 dev then
            get_dst_loop self (print ''[Warning] ID should be an integer between 1 and 9.'' c')
          else if dev = device_id self then
            get_dst_loop self (print ''[Warning] This is my ID.'' c')
          else Some (''1'' @ dev @ ''300'', c'))"
  by pat_completeness auto
termination
  by (relation "measure (\<lambda>(self, c). length (stdin c))")
     (auto simp: input_def print_def split: list.splits)

definition get_dst_from_user :: "AppLayer \<Rightarrow> console \<Rightarrow> (string \<times> console) option" where
  "get_dst_from_user self c = get_dst_loop self (print ''Input destination device ID:'' c)"

text \<open>\<open>_get_msgtype_from_user\<close>.\<close>

function get_msgtype_loop :: "constants \<Rightarrow> console \<Rightarrow> (string \<times> console) option" where
  "get_msgtype_loop k c =
     (case input ''>>> '' c of
        None \<Rightarrow> None
      | Some (msgtype, c') \<Rightarrow>
          if msgtype \<in> set (MessageType_LIST k) then Some (msgtype, c')
          else get_msgtype_loop k (print ''[Warning] Invalid message type!'' c'))"
  by pat_completeness auto
termination
  by (relation "measure (\<lambda>(k, c). length (stdin c))")
     (auto simp: input_def print_def split: list.splits)

definition get_msgtype_from_user :: "constants \<Rightarrow> console \<Rightarrow> (string \<times> console) option" where
  "get_msgtype_from_user k c =
     get_msgtype_loop k (print (''Input message type:'' @ [CHR 0x0A] @ ''1::Text  2::File'') c)"

text \<open>\<open>_get_text_from_user\<close>: an empty line is asked for again, with no warning.\<close>

function get_text_loop :: "console \<Rightarrow> (string \<times> console) option" where
  "get_text_loop c =
     (case input ''>>> '' c of
        None \<Rightarrow> None
      | Some (message, c') \<Rightarrow>
          if message \<noteq> '''' then Some (message, c')
          else get_text_loop c')"
  by pat_completeness auto
termination
  by (relation "measure (\<lambda>c. length (stdin c))")
     (auto simp: input_def split: list.splits)

definition get_text_from_user :: "console \<Rightarrow> (string \<times> console) option" where
  "get_text_from_user c = get_text_loop (print ''Input a piece of message:'' c)"

text \<open>
  \<open>_get_file_from_user\<close>. \<open>utils.io.search_rsc\<close> is not among the sources: the lookup is
  the parameter \<open>search_rsc\<close>, with \<open>None\<close> for Python's \<open>None\<close>. The warning formats
  \<open>filepath\<close>, which is \<open>None\<close> on that branch.
\<close>

function get_file_loop :: "(string \<Rightarrow> string option) \<Rightarrow> console \<Rightarrow> (string \<times> console) option" where
  "get_file_loop search_rsc c =
     (case input ''>>> '' c of
        None \<Rightarrow> None
      | Some (filename, c') \<Rightarrow>
          (case search_rsc filename of
             Some filepath \<Rightarrow> Some (filepath, c')
           | None \<Rightarrow> get_file_loop search_rsc (print ''[Warning] None not found.'' c')))"
  by pat_completeness auto
termination
  by (relation "measure (\<lambda>(search_rsc, c). length (stdin c))")
     (auto simp: input_def print_def split: list.splits)

definition get_file_from_user ::
  "(string \<Rightarrow> string option) \<Rightarrow> console \<Rightarrow> (string \<times> console) option" where
  "get_file_from_user search_rsc c =
     get_file_loop search_rsc (print ''Input file name: (i.e. foo.png)'' c)"

text \<open>\<open>receive_from_user\<close>: the chain of comparisons with the five categories.\<close>

definition receive_from_user ::
  "constants \<Rightarrow> (string \<Rightarrow> string option) \<Rightarrow> AppLayer \<Rightarrow> InputType \<Rightarrow> console
     \<Rightarrow> (string \<times> console) option" where
  "receive_from_user k search_rsc self input_type c =
     (if input_type = MODE then get_mode_from_user k c
      else if input_type = DST then get_dst_from_user self c
      else if input_type = MSGTYPE then get_msgtype_from_user k c
      else if input_type = TEXT then get_text_from_user c
      else if input_type = FILE then get_file_from_user search_rsc c
      else Some ('''', c))"

section \<open>The Network layer (layer/net.py)\<close>

record NetLayer = AbstractLayer +
  app :: port
  phy :: port

definition send_to_app ::
  "(string \<Rightarrow> port \<Rightarrow> bool) \<Rightarrow> NetLayer \<Rightarrow> string \<Rightarrow> event list \<Rightarrow> (error + nat) \<times> event list" where
  "send_to_app accepts self message tr = AbstractLayer_send accepts message (app self) tr"

text \<open>\<open>receive_from_app\<close>: as \<open>receive_from_net\<close>, but \<open>port\<close> starts as the string \<open>-1\<close>.\<close>

function receive_from_app_loop ::
  "constants \<Rightarrow> NetLayer \<Rightarrow> string option \<Rightarrow> port option \<Rightarrow> endpoint
     \<Rightarrow> ((error + string) \<times> endpoint) option" where
  "receive_from_app_loop k self message port e =
     (if port \<noteq> Some (app self) then
        (case AbstractLayer_receive (Some (IN_NE_BUFSIZE k)) None e of
           None \<Rightarrow> None
         | Some ((message', port', _), e') \<Rightarrow>
             receive_from_app_loop k self (Some message') (Some port') e')
      else
        (case message of
           None \<Rightarrow> Some (Inl UnboundLocalError, e)
         | Some m \<Rightarrow> Some (Inr m, e)))"
  by pat_completeness auto
termination
  by (relation "measure (\<lambda>(k, self, message, port, e). length (arrivals e))")
     (auto simp: AbstractLayer_receive_def split: list.splits)

definition receive_from_app ::
  "constants \<Rightarrow> NetLayer \<Rightarrow> endpoint \<Rightarrow> ((error + string) \<times> endpoint) option" where
  "receive_from_app k self e = receive_from_app_loop k self None (Some ''-1'') e"

text \<open>\<open>send_to_phy\<close>: \<open>sleep(Network.FLOW_INTERVAL)\<close>, then the send of the converted text.\<close>

definition send_to_phy ::
  "constants \<Rightarrow> (string \<Rightarrow> port \<Rightarrow> bool) \<Rightarrow> NetLayer \<Rightarrow> string \<Rightarrow> event list
     \<Rightarrow> (error + nat) \<times> event list" where
  "send_to_phy k accepts self binary tr =
     AbstractLayer_send accepts (string_to_bits binary) (phy self) (sleep (FLOW_INTERVAL k) tr)"

text \<open>
  \<open>receive_from_phy\<close>: the argument \<open>timeout\<close> is \<open>None\<close> when the caller leaves it out, and
  the default \<open>Network.RECV_TIMEOUT\<close> stands in. No buffer size is passed to \<open>_receive\<close>.
  The sender that \<open>_receive\<close> reports is dropped (the \<open>_\<close> of the source).
\<close>

definition receive_from_phy ::
  "constants \<Rightarrow> NetLayer \<Rightarrow> nat option \<Rightarrow> endpoint \<Rightarrow> ((string \<times> bool) \<times> endpoint) option" where
  "receive_from_phy k self timeout e =
     (let timeout' = (case timeout of None \<Rightarrow> RECV_TIMEOUT k | Some t \<Rightarrow> t)
      in case AbstractLayer_receive None (Some timeout') e of
           None \<Rightarrow> None
         | Some ((binary, _, success), e') \<Rightarrow>
             Some ((if success then bits_to_string binary else binary, success), e'))"

section \<open>Auxiliary notions for the statements\<close>

text \<open>The first element of a list that satisfies \<open>P\<close>, with the elements after it.\<close>

fun first_match :: "('a \<Rightarrow> bool) \<Rightarrow> 'a list \<Rightarrow> ('a \<times> 'a list) option" where
  "first_match P [] = None"
| "first_match P (x # xs) = (if P x then Some (x, xs) else first_match P xs)"

text \<open>
  A trace is paced for the destination \<open>dst\<close> when each datagram sent to \<open>dst\<close> comes
  directly after a sleep of \<open>interval\<close> ticks; \<open>prev\<close> is the event before the trace.
\<close>

fun paced :: "nat \<Rightarrow> port \<Rightarrow> event option \<Rightarrow> event list \<Rightarrow> bool" where
  "paced interval dst prev [] = True"
| "paced interval dst prev (Sleep n # tr) = paced interval dst (Some (Sleep n)) tr"
| "paced interval dst prev (Send m p # tr) =
     ((p = dst \<longrightarrow> prev = Some (Sleep interval)) \<and> paced interval dst (Some (Send m p)) tr)"

text \<open>
  An example configuration: device \<open>1\<close> with its Application, Network and Physical layers
  at \<open>11300\<close>, \<open>11200\<close> and \<open>11100\<close>.
\<close>

definition example_constants :: constants where
  "example_constants =
     \<lparr>Mode_LIST = [''1'', ''2'', ''3'', ''4''], MessageType_LIST = [''1'', ''2''],
      IN_NE_BUFSIZE = 65536, FLOW_INTERVAL = 1, RECV_TIMEOUT = 3\<rparr>"

definition example_app :: AppLayer where
  "example_app = \<lparr>self_port = ''11300'', device_id = ''1'', net = ''11200''\<rparr>"

definition example_net :: NetLayer where
  "example_net = \<lparr>self_port = ''11200'', app = ''11300'', phy = ''11100''\<rparr>"

definition example_endpoint :: "datagram list \<Rightarrow> endpoint" where
  "example_endpoint ds = \<lparr>arrivals = ds, raw = '''', raw_sender = ''''\<rparr>"

definition example_console :: "string list \<Rightarrow> string list \<Rightarrow> console" where
  "example_console typed written = \<lparr>stdin = typed, stdout = written\<rparr>"

definition example_search_rsc :: "string \<Rightarrow> string option" where
  "example_search_rsc filename =
     (if filename = ''foo.png'' then Some ''/home/cnt/rsc/foo.png'' else None)"

declare receive_from_net_loop.simps [simp del] receive_from_app_loop.simps [simp del]
  get_mode_loop.simps [simp del] get_dst_loop.simps [simp del] get_msgtype_loop.simps [simp del]
  get_text_loop.simps [simp del] get_file_loop.simps [simp del]

section \<open>Coding: the round-trip law\<close>

lemma bit_char_eq_1: "(bit_char b = CHR ''1'') = b"
  by (simp add: bit_char_def)

lemma is_bit_bit_char: "is_bit (bit_char b)"
  by (simp add: bit_char_def is_bit_def)

lemma bits_to_string_byte:
  "bits_to_string (byte_to_bits c @ bits) = c # bits_to_string bits"
  by (cases c) (simp add: byte_to_bits_def bit_char_eq_1)

lemma bits_to_string_string_to_bits: "bits_to_string (string_to_bits s) = s"
  by (induction s) (simp_all add: bits_to_string_byte)

lemma length_string_to_bits: "length (string_to_bits s) = 8 * length s"
  by (induction s) (simp_all add: byte_to_bits_def)

lemma list_all_string_to_bits: "list_all is_bit (string_to_bits s)"
  by (induction s) (simp_all add: byte_to_bits_def is_bit_bit_char)

lemma bit_char_of_is_bit: "is_bit c \<Longrightarrow> bit_char (c = CHR ''1'') = c"
  by (auto simp: bit_char_def is_bit_def)

lemma dvd8_Suc8:
  "(8::nat) dvd Suc (Suc (Suc (Suc (Suc (Suc (Suc (Suc n))))))) \<longleftrightarrow> 8 dvd n"
  by presburger

lemma string_to_bits_bits_to_string:
  "list_all is_bit bits \<Longrightarrow> 8 dvd length bits \<Longrightarrow> string_to_bits (bits_to_string bits) = bits"
proof (induction bits rule: bits_to_string.induct)
  case (1 b7 b6 b5 b4 b3 b2 b1 b0 bits)
  then show ?case
    by (simp add: byte_to_bits_def bit_char_of_is_bit dvd8_Suc8)
qed (simp_all, presburger+)

text \<open>
  C1. The two conversions are mutually inverse. For every text \<open>s\<close> (given by the bytes of
  its encoding), \<open>bits_to_string (string_to_bits s) = s\<close>; the bit-sequence
  \<open>string_to_bits s\<close> has exactly 8 characters per byte of \<open>s\<close>, and each of them is
  \<open>0\<close> or \<open>1\<close>. In the other direction, a bit-sequence of \<open>0\<close>s and \<open>1\<close>s whose length
  is a multiple of 8 is recovered from the text it decodes to.
\<close>

theorem coding_round_trip:
  "bits_to_string (string_to_bits s) = s
   \<and> length (string_to_bits s) = 8 * length s
   \<and> list_all is_bit (string_to_bits s)
   \<and> (list_all is_bit bits \<and> 8 dvd length bits
        \<longrightarrow> string_to_bits (bits_to_string bits) = bits)"
  by (simp add: bits_to_string_string_to_bits length_string_to_bits
        list_all_string_to_bits string_to_bits_bits_to_string)

theorem coding_round_trip_witness:
  "string_to_bits ''hi'' = ''0110100001101001''
   \<and> bits_to_string (string_to_bits ''hi'') = ''hi''
   \<and> length (string_to_bits ''hi'') = 8 * length ''hi''
   \<and> list_all is_bit (string_to_bits ''hi'')
   \<and> list_all is_bit ''0110100001101001'' \<and> 8 dvd length ''0110100001101001''
   \<and> string_to_bits (bits_to_string ''0110100001101001'') = ''0110100001101001''"
proof -
  have bits: "string_to_bits ''hi'' = ''0110100001101001''"
    by (simp add: byte_to_bits_def bit_char_def)
  have wf: "list_all is_bit ''0110100001101001'' \<and> 8 dvd length ''0110100001101001''"
    by (simp add: is_bit_def dvd8_Suc8)
  from coding_round_trip [of "''hi''" "''0110100001101001''"] bits wf
  show ?thesis by blast
qed

section \<open>Peer isolation of the filtering receive loops\<close>

lemma first_match_Some:
  "first_match P xs = Some (x, rest) \<longleftrightarrow>
     (\<exists>pre. xs = pre @ x # rest \<and> P x \<and> (\<forall>y\<in>set pre. \<not> P y))"
proof (induction xs)
  case Nil
  then show ?case by simp
next
  case (Cons a xs)
  show ?case
  proof (cases "P a")
    case True
    have "(\<exists>pre. a # xs = pre @ x # rest \<and> P x \<and> (\<forall>y\<in>set pre. \<not> P y)) \<longleftrightarrow> a = x \<and> xs = rest"
    proof
      assume "\<exists>pre. a # xs = pre @ x # rest \<and> P x \<and> (\<forall>y\<in>set pre. \<not> P y)"
      then obtain pre where pre: "a # xs = pre @ x # rest" "\<forall>y\<in>set pre. \<not> P y" by blast
      with True show "a = x \<and> xs = rest" by (cases pre) auto
    next
      assume "a = x \<and> xs = rest"
      with True have "a # xs = [] @ x # rest \<and> P x \<and> (\<forall>y\<in>set []. \<not> P y)" by simp
      then show "\<exists>pre. a # xs = pre @ x # rest \<and> P x \<and> (\<forall>y\<in>set pre. \<not> P y)" by blast
    qed
    with True show ?thesis by auto
  next
    case False
    have "(\<exists>pre. a # xs = pre @ x # rest \<and> P x \<and> (\<forall>y\<in>set pre. \<not> P y)) \<longleftrightarrow>
          (\<exists>pre. xs = pre @ x # rest \<and> P x \<and> (\<forall>y\<in>set pre. \<not> P y))"
    proof
      assume "\<exists>pre. a # xs = pre @ x # rest \<and> P x \<and> (\<forall>y\<in>set pre. \<not> P y)"
      then obtain pre where pre: "a # xs = pre @ x # rest" "P x" "\<forall>y\<in>set pre. \<not> P y" by blast
      with False obtain pre' where "pre = a # pre'" by (cases pre) auto
      with pre have "xs = pre' @ x # rest \<and> P x \<and> (\<forall>y\<in>set pre'. \<not> P y)" by simp
      then show "\<exists>pre. xs = pre @ x # rest \<and> P x \<and> (\<forall>y\<in>set pre. \<not> P y)" by blast
    next
      assume "\<exists>pre. xs = pre @ x # rest \<and> P x \<and> (\<forall>y\<in>set pre. \<not> P y)"
      then obtain pre where "xs = pre @ x # rest" "P x" "\<forall>y\<in>set pre. \<not> P y" by blast
      with False have "a # xs = (a # pre) @ x # rest \<and> P x \<and> (\<forall>y\<in>set (a # pre). \<not> P y)" by simp
      then show "\<exists>pre. a # xs = pre @ x # rest \<and> P x \<and> (\<forall>y\<in>set pre. \<not> P y)" by blast
    qed
    with False Cons.IH show ?thesis by simp
  qed
qed

lemma first_match_None: "first_match P xs = None \<longleftrightarrow> (\<forall>x\<in>set xs. \<not> P x)"
  by (induction xs) auto

lemma receive_blocking:
  "AbstractLayer_receive bufsize None e =
     (case arrivals e of
        [] \<Rightarrow> None
      | d # ds \<Rightarrow> Some ((payload d, sender d, True), e\<lparr>arrivals := ds\<rparr>))"
  by (auto simp: AbstractLayer_receive_def payload_def sender_def split: list.splits)

lemma receive_from_net_loop_first:
  "port \<noteq> Some (net self) \<Longrightarrow>
   receive_from_net_loop k self message port e =
     map_option (\<lambda>(d, ds). (Inr (payload d), e\<lparr>arrivals := ds\<rparr>))
       (first_match (\<lambda>d. sender d = net self) (arrivals e))"
proof (induction "arrivals e" arbitrary: e message port)
  case Nil
  then show ?case
    by (subst receive_from_net_loop.simps) (simp add: receive_blocking)
next
  case (Cons d ds)
  let ?e' = "e\<lparr>arrivals := ds\<rparr>"
  have step: "receive_from_net_loop k self message port e =
              receive_from_net_loop k self (Some (payload d)) (Some (sender d)) ?e'"
    using Cons.prems Cons.hyps(2) [symmetric]
    by (subst receive_from_net_loop.simps) (simp add: receive_blocking)
  show ?case
  proof (cases "sender d = net self")
    case True
    then show ?thesis
      using Cons.hyps(2) [symmetric] step
      by (simp add: receive_from_net_loop.simps [of k self "Some (payload d)"])
  next
    case False
    have "receive_from_net_loop k self (Some (payload d)) (Some (sender d)) ?e' =
            map_option (\<lambda>(d, ds). (Inr (payload d), ?e'\<lparr>arrivals := ds\<rparr>))
              (first_match (\<lambda>d. sender d = net self) (arrivals ?e'))"
      by (rule Cons.hyps(1)) (simp_all add: False)
    with step False Cons.hyps(2) [symmetric] show ?thesis by simp
  qed
qed


lemma receive_from_app_loop_first:
  "port \<noteq> Some (app self) \<Longrightarrow>
   receive_from_app_loop k self message port e =
     map_option (\<lambda>(d, ds). (Inr (payload d), e\<lparr>arrivals := ds\<rparr>))
       (first_match (\<lambda>d. sender d = app self) (arrivals e))"
proof (induction "arrivals e" arbitrary: e message port)
  case Nil
  then show ?case
    by (subst receive_from_app_loop.simps) (simp add: receive_blocking)
next
  case (Cons d ds)
  let ?e' = "e\<lparr>arrivals := ds\<rparr>"
  have step: "receive_from_app_loop k self message port e =
              receive_from_app_loop k self (Some (payload d)) (Some (sender d)) ?e'"
    using Cons.prems Cons.hyps(2) [symmetric]
    by (subst receive_from_app_loop.simps) (simp add: receive_blocking)
  show ?case
  proof (cases "sender d = app self")
    case True
    then show ?thesis
      using Cons.hyps(2) [symmetric] step
      by (simp add: receive_from_app_loop.simps [of k self "Some (payload d)"])
  next
    case False
    have "receive_from_app_loop k self (Some (payload d)) (Some (sender d)) ?e' =
            map_option (\<lambda>(d, ds). (Inr (payload d), ?e'\<lparr>arrivals := ds\<rparr>))
              (first_match (\<lambda>d. sender d = app self) (arrivals ?e'))"
      by (rule Cons.hyps(1)) (simp_all add: False)
    with step False Cons.hyps(2) [symmetric] show ?thesis by simp
  qed
qed

lemma receive_from_net_first:
  "receive_from_net k self e =
     map_option (\<lambda>(d, ds). (Inr (payload d), e\<lparr>arrivals := ds\<rparr>))
       (first_match (\<lambda>d. sender d = net self) (arrivals e))"
  by (simp add: receive_from_net_def receive_from_net_loop_first)

lemma receive_from_app_first:
  "app self \<noteq> ''-1'' \<Longrightarrow>
   receive_from_app k self e =
     map_option (\<lambda>(d, ds). (Inr (payload d), e\<lparr>arrivals := ds\<rparr>))
       (first_match (\<lambda>d. sender d = app self) (arrivals e))"
  by (simp add: receive_from_app_def receive_from_app_loop_first)

lemma receive_from_app_unbound:
  "app self = ''-1'' \<Longrightarrow> receive_from_app k self e = Some (Inl UnboundLocalError, e)"
  by (simp add: receive_from_app_def receive_from_app_loop.simps)

lemma receive_from_net_returns:
  assumes "receive_from_net k self e = Some (Inr m, e')"
  shows "\<exists>pre d. arrivals e = pre @ d # arrivals e' \<and> payload d = m \<and> sender d = net self
           \<and> (\<forall>x\<in>set pre. sender x \<noteq> net self)"
proof -
  from assms obtain d ds where
    fm: "first_match (\<lambda>d. sender d = net self) (arrivals e) = Some (d, ds)"
    and m: "m = payload d" and e': "e' = e\<lparr>arrivals := ds\<rparr>"
    by (auto simp: receive_from_net_first)
  from fm obtain pre where "arrivals e = pre @ d # ds" "sender d = net self"
    "\<forall>x\<in>set pre. sender x \<noteq> net self"
    unfolding first_match_Some by blast
  with m e' show ?thesis by auto
qed

lemma receive_from_app_returns:
  assumes "receive_from_app k self e = Some (Inr m, e')"
  shows "\<exists>pre d. arrivals e = pre @ d # arrivals e' \<and> payload d = m \<and> sender d = app self
           \<and> (\<forall>x\<in>set pre. sender x \<noteq> app self)"
proof -
  from assms have ne: "app self \<noteq> ''-1''"
    by (auto simp: receive_from_app_unbound)
  with assms obtain d ds where
    fm: "first_match (\<lambda>d. sender d = app self) (arrivals e) = Some (d, ds)"
    and m: "m = payload d" and e': "e' = e\<lparr>arrivals := ds\<rparr>"
    by (auto simp: receive_from_app_first)
  from fm obtain pre where "arrivals e = pre @ d # ds" "sender d = app self"
    "\<forall>x\<in>set pre. sender x \<noteq> app self"
    unfolding first_match_Some by blast
  with m e' show ?thesis by auto
qed

lemma first_match_append:
  "P d \<Longrightarrow> \<forall>x\<in>set pre. \<not> P x \<Longrightarrow> first_match P (pre @ d # post) = Some (d, post)"
  by (induction pre) simp_all

text \<open>
  C2. Peer isolation of the link between the Application and the Network layer, for
  every sequence of arriving datagrams. When \<open>receive_from_net\<close> returns a message, that
  message is the payload of the first datagram whose sender is the bound Network-layer
  address, and every datagram before it came from another sender; likewise
  \<open>receive_from_app\<close> and the bound app address. While only other senders' datagrams
  arrive, neither function returns; and the first datagram of the bound peer is
  returned however many datagrams of other senders come before it. (Were the bound app
  address the string \<open>-1\<close>, the loop of \<open>receive_from_app\<close> would not be entered and the
  \<open>return\<close> would raise UnboundLocalError: no message is returned then either.)
\<close>

theorem peer_isolation:
  "(receive_from_net k aself e = Some (Inr m, e') \<longrightarrow>
      (\<exists>pre d. arrivals e = pre @ d # arrivals e' \<and> payload d = m \<and> sender d = net aself
         \<and> (\<forall>x\<in>set pre. sender x \<noteq> net aself)))
   \<and> (receive_from_app k nself e = Some (Inr m, e') \<longrightarrow>
      (\<exists>pre d. arrivals e = pre @ d # arrivals e' \<and> payload d = m \<and> sender d = app nself
         \<and> (\<forall>x\<in>set pre. sender x \<noteq> app nself)))
   \<and> ((\<forall>x\<in>set (arrivals e). sender x \<noteq> net aself) \<longrightarrow> receive_from_net k aself e = None)
   \<and> ((\<forall>x\<in>set (arrivals e). sender x \<noteq> app nself) \<and> app nself \<noteq> ''-1'' \<longrightarrow>
        receive_from_app k nself e = None)
   \<and> (sender d = net aself \<and> (\<forall>x\<in>set pre. sender x \<noteq> net aself) \<longrightarrow>
        receive_from_net k aself (e\<lparr>arrivals := pre @ d # post\<rparr>)
          = Some (Inr (payload d), e\<lparr>arrivals := post\<rparr>))
   \<and> (sender d = app nself \<and> (\<forall>x\<in>set pre. sender x \<noteq> app nself) \<and> app nself \<noteq> ''-1'' \<longrightarrow>
        receive_from_app k nself (e\<lparr>arrivals := pre @ d # post\<rparr>)
          = Some (Inr (payload d), e\<lparr>arrivals := post\<rparr>))"
proof (intro conjI impI)
  assume "receive_from_net k aself e = Some (Inr m, e')"
  then show "\<exists>pre d. arrivals e = pre @ d # arrivals e' \<and> payload d = m \<and> sender d = net aself
         \<and> (\<forall>x\<in>set pre. sender x \<noteq> net aself)"
    by (rule receive_from_net_returns)
next
  assume "receive_from_app k nself e = Some (Inr m, e')"
  then show "\<exists>pre d. arrivals e = pre @ d # arrivals e' \<and> payload d = m \<and> sender d = app nself
         \<and> (\<forall>x\<in>set pre. sender x \<noteq> app nself)"
    by (rule receive_from_app_returns)
next
  assume "\<forall>x\<in>set (arrivals e). sender x \<noteq> net aself"
  then show "receive_from_net k aself e = None"
    by (simp add: receive_from_net_first first_match_None)
next
  assume "(\<forall>x\<in>set (arrivals e). sender x \<noteq> app nself) \<and> app nself \<noteq> ''-1''"
  then show "receive_from_app k nself e = None"
    by (simp add: receive_from_app_first first_match_None)
next
  assume "sender d = net aself \<and> (\<forall>x\<in>set pre. sender x \<noteq> net aself)"
  then show "receive_from_net k aself (e\<lparr>arrivals := pre @ d # post\<rparr>)
          = Some (Inr (payload d), e\<lparr>arrivals := post\<rparr>)"
    by (simp add: receive_from_net_first first_match_append)
next
  assume "sender d = app nself \<and> (\<forall>x\<in>set pre. sender x \<noteq> app nself) \<and> app nself \<noteq> ''-1''"
  then show "receive_from_app k nself (e\<lparr>arrivals := pre @ d # post\<rparr>)
          = Some (Inr (payload d), e\<lparr>arrivals := post\<rparr>)"
    by (simp add: receive_from_app_first first_match_append)
qed



theorem peer_isolation_witness:
  "receive_from_net example_constants example_app
     (example_endpoint [(0, ''spam'', ''12300''), (2, ''hello'', ''11200''), (1, ''late'', ''11200'')])
     = Some (Inr ''hello'', example_endpoint [(1, ''late'', ''11200'')])
   \<and> (\<exists>pre d. arrivals (example_endpoint
                  [(0, ''spam'', ''12300''), (2, ''hello'', ''11200''), (1, ''late'', ''11200'')])
                 = pre @ d # arrivals (example_endpoint [(1, ''late'', ''11200'')])
          \<and> payload d = ''hello'' \<and> sender d = net example_app
          \<and> (\<forall>x\<in>set pre. sender x \<noteq> net example_app))
   \<and> receive_from_app example_constants example_net
     (example_endpoint [(0, ''spam'', ''12300''), (2, ''hi'', ''11300'')])
     = Some (Inr ''hi'', example_endpoint [])
   \<and> (\<exists>pre d. arrivals (example_endpoint [(0, ''spam'', ''12300''), (2, ''hi'', ''11300'')])
                 = pre @ d # arrivals (example_endpoint [])
          \<and> payload d = ''hi'' \<and> sender d = app example_net
          \<and> (\<forall>x\<in>set pre. sender x \<noteq> app example_net))
   \<and> receive_from_net example_constants example_app
       (example_endpoint [(0, ''spam'', ''12300''), (1, ''spam'', ''11100'')]) = None
   \<and> receive_from_app example_constants example_net
       (example_endpoint [(0, ''spam'', ''12300''), (1, ''spam'', ''11100'')]) = None
   \<and> receive_from_net example_constants example_app
       ((example_endpoint [])\<lparr>arrivals := [(0, ''spam'', ''12300'')] @ (2, ''hello'', ''11200'') # []\<rparr>)
     = Some (Inr (payload (2, ''hello'', ''11200'')), (example_endpoint [])\<lparr>arrivals := []\<rparr>)
   \<and> receive_from_app example_constants example_net
       ((example_endpoint [])\<lparr>arrivals := [(0, ''spam'', ''12300'')] @ (2, ''hi'', ''11300'') # []\<rparr>)
     = Some (Inr (payload (2, ''hi'', ''11300'')), (example_endpoint [])\<lparr>arrivals := []\<rparr>)"
proof -
  let ?k = example_constants
  let ?e1 = "example_endpoint [(0, ''spam'', ''12300''), (2, ''hello'', ''11200''), (1, ''late'', ''11200'')]"
  let ?e2 = "example_endpoint [(0, ''spam'', ''12300''), (2, ''hi'', ''11300'')]"
  let ?e3 = "example_endpoint [(0, ''spam'', ''12300''), (1, ''spam'', ''11100'')]"
  have r1: "receive_from_net ?k example_app ?e1
              = Some (Inr ''hello'', example_endpoint [(1, ''late'', ''11200'')])"
    by (simp add: receive_from_net_def receive_from_net_loop.simps AbstractLayer_receive_def
          example_app_def example_endpoint_def)
  have r2: "receive_from_app ?k example_net ?e2 = Some (Inr ''hi'', example_endpoint [])"
    by (simp add: receive_from_app_def receive_from_app_loop.simps AbstractLayer_receive_def
          example_net_def example_endpoint_def)
  have h3: "\<forall>x\<in>set (arrivals ?e3). sender x \<noteq> net example_app"
    by (simp add: example_endpoint_def example_app_def sender_def)
  have h4: "(\<forall>x\<in>set (arrivals ?e3). sender x \<noteq> app example_net) \<and> app example_net \<noteq> ''-1''"
    by (simp add: example_endpoint_def example_net_def sender_def)
  note c1 = peer_isolation [of ?k example_app ?e1 "''hello''"
      "example_endpoint [(1, ''late'', ''11200'')]", THEN conjunct1, THEN mp, OF r1]
  note c2 = peer_isolation [of ?k _ ?e2 "''hi''" "example_endpoint []" example_net,
      THEN conjunct2, THEN conjunct1, THEN mp, OF r2]
  note c3 = peer_isolation [of ?k example_app ?e3 _ _ example_net,
      THEN conjunct2, THEN conjunct2, THEN conjunct1, THEN mp, OF h3]
  note c4 = peer_isolation [of ?k _ ?e3 _ _ example_net,
      THEN conjunct2, THEN conjunct2, THEN conjunct2, THEN conjunct1, THEN mp, OF h4]
  have h5: "sender (2, ''hello'', ''11200'') = net example_app
            \<and> (\<forall>x\<in>set [(0::nat, ''spam'', ''12300'')]. sender x \<noteq> net example_app)"
    by (simp add: example_app_def sender_def)
  have h6: "sender (2, ''hi'', ''11300'') = app example_net
            \<and> (\<forall>x\<in>set [(0::nat, ''spam'', ''12300'')]. sender x \<noteq> app example_net)
            \<and> app example_net \<noteq> ''-1''"
    by (simp add: example_net_def sender_def)
  note c5 = peer_isolation [of ?k example_app "example_endpoint []" _ _ example_net
      "(2, ''hello'', ''11200'')" "[(0, ''spam'', ''12300'')]" "[]",
      THEN conjunct2, THEN conjunct2, THEN conjunct2, THEN conjunct2, THEN conjunct1, THEN mp, OF h5]
  note c6 = peer_isolation [of ?k example_app "example_endpoint []" _ _ example_net
      "(2, ''hi'', ''11300'')" "[(0, ''spam'', ''12300'')]" "[]",
      THEN conjunct2, THEN conjunct2, THEN conjunct2, THEN conjunct2, THEN conjunct2, THEN mp, OF h6]
  show ?thesis
    by (intro conjI) (rule r1 c1 r2 c2 c3 c4 c5 c6)+
qed

section \<open>Receiving from the Physical layer\<close>

lemma receive_from_phy_success:
  "AbstractLayer_receive None (Some t) e = Some ((binary, p, True), e') \<Longrightarrow>
   receive_from_phy k self (Some t) e = Some ((bits_to_string binary, True), e')"
  by (simp add: receive_from_phy_def)

lemma receive_from_phy_failure:
  "AbstractLayer_receive None (Some t) e = Some ((binary, p, False), e') \<Longrightarrow>
   receive_from_phy k self (Some t) e = Some ((binary, False), e')"
  by (simp add: receive_from_phy_def)

lemma receive_from_phy_default:
  "receive_from_phy k self None e = receive_from_phy k self (Some (RECV_TIMEOUT k)) e"
  by (simp add: receive_from_phy_def)

lemma receive_from_phy_timeout:
  assumes "0 < t" and "arrivals e = [] \<or> (\<exists>g m p ds. arrivals e = (g, m, p) # ds \<and> t \<le> g)"
  shows "\<exists>e'. receive_from_phy k self (Some t) e = Some ((raw e, False), e')"
  using assms by (auto simp: receive_from_phy_def AbstractLayer_receive_def)

text \<open>
  C3. For every call of \<open>receive_from_phy\<close>: when the underlying \<open>_receive\<close> succeeds, the
  payload returned is \<open>bits_to_string\<close> of the bit-sequence received and the flag is
  \<open>True\<close>; when it reports a timeout, the value it handed back is returned unconverted
  with the flag \<open>False\<close>, as an ordinary result (when the timeout \<open>t\<close> elapses with nothing
  arriving before it, that value is the endpoint's \<open>raw\<close>); and a call without \<open>timeout\<close>
  is a call with \<open>Network.RECV_TIMEOUT\<close>.
\<close>

theorem receive_from_phy_outcome:
  "(AbstractLayer_receive None (Some t) e = Some ((binary, p, True), e') \<longrightarrow>
      receive_from_phy k self (Some t) e = Some ((bits_to_string binary, True), e'))
   \<and> (AbstractLayer_receive None (Some t) e = Some ((binary, p, False), e') \<longrightarrow>
      receive_from_phy k self (Some t) e = Some ((binary, False), e'))
   \<and> (0 < t \<and> (arrivals e = [] \<or> (\<exists>g m p ds. arrivals e = (g, m, p) # ds \<and> t \<le> g)) \<longrightarrow>
      (\<exists>e'. receive_from_phy k self (Some t) e = Some ((raw e, False), e')))
   \<and> receive_from_phy k self None e = receive_from_phy k self (Some (RECV_TIMEOUT k)) e"
  using receive_from_phy_success [of t e binary p e' k self]
    receive_from_phy_failure [of t e binary p e' k self]
    receive_from_phy_timeout [of t e k self]
    receive_from_phy_default [of k self e]
  by blast

theorem receive_from_phy_outcome_witness:
  "AbstractLayer_receive None (Some 3) (example_endpoint [(1, ''0110100001101001'', ''11100'')])
     = Some ((''0110100001101001'', ''11100'', True), example_endpoint [])
   \<and> receive_from_phy example_constants example_net (Some 3)
       (example_endpoint [(1, ''0110100001101001'', ''11100'')])
     = Some ((bits_to_string ''0110100001101001'', True), example_endpoint [])
   \<and> bits_to_string ''0110100001101001'' = ''hi''
   \<and> AbstractLayer_receive None (Some 3) (example_endpoint [(7, ''0110100001101001'', ''11100'')])
     = Some (('''', '''', False), example_endpoint [(4, ''0110100001101001'', ''11100'')])
   \<and> receive_from_phy example_constants example_net (Some 3)
       (example_endpoint [(7, ''0110100001101001'', ''11100'')])
     = Some (('''', False), example_endpoint [(4, ''0110100001101001'', ''11100'')])
   \<and> (\<exists>e'. receive_from_phy example_constants example_net (Some 3) (example_endpoint [])
          = Some ((raw (example_endpoint []), False), e'))
   \<and> receive_from_phy example_constants example_net None (example_endpoint [])
     = receive_from_phy example_constants example_net (Some 3) (example_endpoint [])"
proof -
  let ?b = "''0110100001101001''"
  have r1: "AbstractLayer_receive None (Some 3) (example_endpoint [(1, ?b, ''11100'')])
              = Some ((?b, ''11100'', True), example_endpoint [])"
    by (simp add: AbstractLayer_receive_def example_endpoint_def)
  have r2: "AbstractLayer_receive None (Some 3) (example_endpoint [(7, ?b, ''11100'')])
              = Some (('''', '''', False), example_endpoint [(4, ?b, ''11100'')])"
    by (simp add: AbstractLayer_receive_def example_endpoint_def)
  have h3: "(0::nat) < 3 \<and> (arrivals (example_endpoint []) = []
              \<or> (\<exists>g m p ds. arrivals (example_endpoint []) = (g, m, p) # ds \<and> 3 \<le> g))"
    by (simp add: example_endpoint_def)
  have k: "RECV_TIMEOUT example_constants = 3"
    by (simp add: example_constants_def)
  have b: "bits_to_string ?b = ''hi''"
    by simp
  note c1 = receive_from_phy_outcome [of 3 _ ?b "''11100''" _ example_constants example_net,
      THEN conjunct1, THEN mp, OF r1]
  note c2 = receive_from_phy_outcome [of 3 _ "''''" "''''" _ example_constants example_net,
      THEN conjunct2, THEN conjunct1, THEN mp, OF r2]
  note c3 = receive_from_phy_outcome [of 3 "example_endpoint []" _ _ _ example_constants example_net,
      THEN conjunct2, THEN conjunct2, THEN conjunct1, THEN mp, OF h3]
  note c4 = receive_from_phy_outcome [of _ "example_endpoint []" _ _ _ example_constants example_net,
      THEN conjunct2, THEN conjunct2, THEN conjunct2, unfolded k]
  show ?thesis
    by (intro conjI) (rule r1 c1 b r2 c2 c3 c4)+
qed

text \<open>
  C4. The claim: \<open>receive_from_phy\<close> with timeout \<open>T\<close> reports failure when no datagram
  from the Physical-layer address arrives within \<open>T\<close>, and only a datagram from that
  address can make it succeed. The code drops the sender that \<open>_receive\<close> reports. Here
  the Network layer of the example (Physical-layer address \<open>11100\<close>) waits 5 ticks, and
  the only datagram to arrive comes from its Application layer (\<open>11300\<close>) after 1 tick:
  the call reports success and returns that datagram's payload, converted.
\<close>

theorem receive_from_phy_any_sender:
  "phy example_net = ''11100''
   \<and> receive_from_phy example_constants example_net (Some 5)
        (example_endpoint [(1, ''0110100001101001'', ''11300'')])
      = Some ((''hi'', True), example_endpoint [])"
  by (simp add: receive_from_phy_def AbstractLayer_receive_def example_endpoint_def
        example_net_def)

section \<open>Sending to the Physical layer\<close>

lemma paced_append:
  "paced i dst prev (tr @ tr') =
     (paced i dst prev tr \<and> paced i dst (if tr = [] then prev else Some (last tr)) tr')"
  by (induction i dst prev tr rule: paced.induct) auto

lemma send_to_phy_eq:
  "send_to_phy k accepts self binary tr =
     (if accepts (string_to_bits binary) (phy self)
      then (Inr (length (string_to_bits binary)),
            tr @ [Sleep (FLOW_INTERVAL k), Send (string_to_bits binary) (phy self)])
      else (Inl TransportError, tr @ [Sleep (FLOW_INTERVAL k)]))"
  by (simp add: send_to_phy_def AbstractLayer_send_def sleep_def)

lemma send_to_phy_paced:
  "paced (FLOW_INTERVAL k) (phy self) None tr \<Longrightarrow>
   paced (FLOW_INTERVAL k) (phy self) None (snd (send_to_phy k accepts self binary tr))"
  by (simp add: send_to_phy_eq paced_append)

text \<open>
  C6. \<open>send_to_phy\<close> with payload \<open>binary\<close> first sleeps for \<open>Network.FLOW_INTERVAL\<close>, whatever
  the payload, and then hands the transport one datagram, addressed to the Physical
  layer and carrying \<open>string_to_bits binary\<close> (none when the transport refuses it, and then
  the error is the result). So a trace in which every datagram to the Physical layer
  comes right after a sleep of that interval stays such a trace.
\<close>

theorem send_to_phy_paces_and_converts:
  "send_to_phy k accepts self binary tr =
     (if accepts (string_to_bits binary) (phy self)
      then (Inr (length (string_to_bits binary)),
            tr @ [Sleep (FLOW_INTERVAL k), Send (string_to_bits binary) (phy self)])
      else (Inl TransportError, tr @ [Sleep (FLOW_INTERVAL k)]))
   \<and> (paced (FLOW_INTERVAL k) (phy self) None tr \<longrightarrow>
        paced (FLOW_INTERVAL k) (phy self) None (snd (send_to_phy k accepts self binary tr)))"
  using send_to_phy_eq [of k accepts self binary tr] send_to_phy_paced [of k self tr accepts binary]
  by blast

theorem send_to_phy_paces_and_converts_witness:
  "send_to_phy example_constants (\<lambda>m p. True) example_net ''hi'' []
     = (Inr 16, [Sleep 1, Send ''0110100001101001'' ''11100''])
   \<and> paced (FLOW_INTERVAL example_constants) (phy example_net) None []
   \<and> paced (FLOW_INTERVAL example_constants) (phy example_net) None
        (snd (send_to_phy example_constants (\<lambda>m p. True) example_net ''hi'' []))"
proof -
  have h: "paced (FLOW_INTERVAL example_constants) (phy example_net) None []"
    by simp
  note t = send_to_phy_paces_and_converts [of example_constants "\<lambda>m p. True" example_net "''hi''" "[]"]
  from t [THEN conjunct1]
  have c1: "send_to_phy example_constants (\<lambda>m p. True) example_net ''hi'' []
              = (Inr 16, [Sleep 1, Send ''0110100001101001'' ''11100''])"
    by (simp add: example_constants_def example_net_def byte_to_bits_def bit_char_def)
  note c2 = t [THEN conjunct2, THEN mp, OF h]
  show ?thesis
    by (intro conjI) (rule c1 h c2)+
qed

section \<open>Keyboard input: the validation loops\<close>

lemma stdin_print: "stdin (print line c) = stdin c"
  by (simp add: print_def)

lemma input_Cons:
  "stdin c = line # rest \<Longrightarrow>
   input prompt c = Some (line, c\<lparr>stdin := rest, stdout := stdout c @ [prompt]\<rparr>)"
  by (simp add: input_def)

lemma input_Nil: "stdin c = [] \<Longrightarrow> input prompt c = None"
  by (simp add: input_def)

lemma get_mode_loop_first:
  "map_option (\<lambda>(v, c'). (v, stdin c')) (get_mode_loop k c) =
     first_match (\<lambda>x. x \<in> set (Mode_LIST k)) (stdin c)"
proof (induction "stdin c" arbitrary: c)
  case Nil
  then show ?case
    by (subst get_mode_loop.simps) (simp add: input_Nil [OF Nil.hyps [symmetric]])
next
  case (Cons line rest)
  let ?c' = "c\<lparr>stdin := rest, stdout := stdout c @ [''>>> '']\<rparr>"
  note inp = input_Cons [OF Cons.hyps(2) [symmetric], of "''>>> ''"]
  show ?case
  proof (cases "line \<in> set (Mode_LIST k)")
    case True
    then show ?thesis
      by (subst get_mode_loop.simps) (simp add: inp Cons.hyps(2) [symmetric])
  next
    case False
    have "map_option (\<lambda>(v, c'). (v, stdin c'))
            (get_mode_loop k (print ''[Warning] Invalid mode.'' ?c')) =
          first_match (\<lambda>x. x \<in> set (Mode_LIST k)) (stdin (print ''[Warning] Invalid mode.'' ?c'))"
      by (rule Cons.hyps(1)) (simp add: stdin_print)
    with False show ?thesis
      by (subst get_mode_loop.simps) (simp add: inp Cons.hyps(2) [symmetric] stdin_print)
  qed
qed

lemma get_msgtype_loop_first:
  "map_option (\<lambda>(v, c'). (v, stdin c')) (get_msgtype_loop k c) =
     first_match (\<lambda>x. x \<in> set (MessageType_LIST k)) (stdin c)"
proof (induction "stdin c" arbitrary: c)
  case Nil
  then show ?case
    by (subst get_msgtype_loop.simps) (simp add: input_Nil [OF Nil.hyps [symmetric]])
next
  case (Cons line rest)
  let ?c' = "c\<lparr>stdin := rest, stdout := stdout c @ [''>>> '']\<rparr>"
  note inp = input_Cons [OF Cons.hyps(2) [symmetric], of "''>>> ''"]
  show ?case
  proof (cases "line \<in> set (MessageType_LIST k)")
    case True
    then show ?thesis
      by (subst get_msgtype_loop.simps) (simp add: inp Cons.hyps(2) [symmetric])
  next
    case False
    have "map_option (\<lambda>(v, c'). (v, stdin c'))
            (get_msgtype_loop k (print ''[Warning] Invalid message type!'' ?c')) =
          first_match (\<lambda>x. x \<in> set (MessageType_LIST k))
            (stdin (print ''[Warning] Invalid message type!'' ?c'))"
      by (rule Cons.hyps(1)) (simp add: stdin_print)
    with False show ?thesis
      by (subst get_msgtype_loop.simps) (simp add: inp Cons.hyps(2) [symmetric] stdin_print)
  qed
qed

lemma get_text_loop_first:
  "map_option (\<lambda>(v, c'). (v, stdin c')) (get_text_loop c) =
     first_match (\<lambda>x. x \<noteq> '''') (stdin c)"
proof (induction "stdin c" arbitrary: c)
  case Nil
  then show ?case
    by (subst get_text_loop.simps) (simp add: input_Nil [OF Nil.hyps [symmetric]])
next
  case (Cons line rest)
  let ?c' = "c\<lparr>stdin := rest, stdout := stdout c @ [''>>> '']\<rparr>"
  note inp = input_Cons [OF Cons.hyps(2) [symmetric], of "''>>> ''"]
  show ?case
  proof (cases "line \<noteq> ''''")
    case True
    then show ?thesis
      by (subst get_text_loop.simps) (simp add: inp Cons.hyps(2) [symmetric])
  next
    case False
    have "map_option (\<lambda>(v, c'). (v, stdin c')) (get_text_loop ?c') =
          first_match (\<lambda>x. x \<noteq> '''') (stdin ?c')"
      by (rule Cons.hyps(1)) simp
    with False show ?thesis
      by (subst get_text_loop.simps) (simp add: inp Cons.hyps(2) [symmetric])
  qed
qed

lemma get_file_loop_first:
  "map_option (\<lambda>(v, c'). (v, stdin c')) (get_file_loop search_rsc c) =
     map_option (\<lambda>(filename, rest). (the (search_rsc filename), rest))
       (first_match (\<lambda>x. search_rsc x \<noteq> None) (stdin c))"
proof (induction "stdin c" arbitrary: c)
  case Nil
  then show ?case
    by (subst get_file_loop.simps) (simp add: input_Nil [OF Nil.hyps [symmetric]])
next
  case (Cons line rest)
  let ?c' = "c\<lparr>stdin := rest, stdout := stdout c @ [''>>> '']\<rparr>"
  note inp = input_Cons [OF Cons.hyps(2) [symmetric], of "''>>> ''"]
  show ?case
  proof (cases "search_rsc line")
    case (Some filepath)
    then show ?thesis
      by (subst get_file_loop.simps) (simp add: inp Cons.hyps(2) [symmetric])
  next
    case None
    have "map_option (\<lambda>(v, c'). (v, stdin c'))
            (get_file_loop search_rsc (print ''[Warning] None not found.'' ?c')) =
          map_option (\<lambda>(filename, rest). (the (search_rsc filename), rest))
            (first_match (\<lambda>x. search_rsc x \<noteq> None)
               (stdin (print ''[Warning] None not found.'' ?c')))"
      by (rule Cons.hyps(1)) (simp add: stdin_print)
    with None show ?thesis
      by (subst get_file_loop.simps) (simp add: inp Cons.hyps(2) [symmetric] stdin_print)
  qed
qed

lemma get_dst_loop_first:
  "map_option (\<lambda>(v, c'). (v, stdin c')) (get_dst_loop self c) =
     map_option (\<lambda>(dev, rest). (''1'' @ dev @ ''300'', rest))
       (first_match (\<lambda>x. fullmatch_1_9 x \<and> x \<noteq> device_id self) (stdin c))"
proof (induction "stdin c" arbitrary: c)
  case Nil
  then show ?case
    by (subst get_dst_loop.simps) (simp add: input_Nil [OF Nil.hyps [symmetric]])
next
  case (Cons line rest)
  let ?c' = "c\<lparr>stdin := rest, stdout := stdout c @ [''>>> '']\<rparr>"
  let ?P = "\<lambda>x. fullmatch_1_9 x \<and> x \<noteq> device_id self"
  note inp = input_Cons [OF Cons.hyps(2) [symmetric], of "''>>> ''"]
  have ih: "map_option (\<lambda>(v, c'). (v, stdin c')) (get_dst_loop self (print w ?c')) =
            map_option (\<lambda>(dev, rest). (''1'' @ dev @ ''300'', rest)) (first_match ?P rest)" for w
  proof -
    have "map_option (\<lambda>(v, c'). (v, stdin c')) (get_dst_loop self (print w ?c')) =
            map_option (\<lambda>(dev, rest). (''1'' @ dev @ ''300'', rest))
              (first_match ?P (stdin (print w ?c')))"
      by (rule Cons.hyps(1)) (simp add: stdin_print)
    then show ?thesis by (simp add: stdin_print)
  qed
  consider (nomatch) "\<not> fullmatch_1_9 line"
    | (mine) "fullmatch_1_9 line" "line = device_id self"
    | (ok) "fullmatch_1_9 line" "line \<noteq> device_id self"
    by blast
  then show ?case
  proof cases
    case nomatch
    then show ?thesis
      by (subst get_dst_loop.simps) (simp add: inp Cons.hyps(2) [symmetric] ih)
  next
    case mine
    then show ?thesis
      by (subst get_dst_loop.simps) (simp add: inp Cons.hyps(2) [symmetric] ih)
  next
    case ok
    then show ?thesis
      by (subst get_dst_loop.simps) (simp add: inp Cons.hyps(2) [symmetric])
  qed
qed


lemma loop_result:
  "map_option (\<lambda>(v, c'). (v, stdin c')) r = fm \<Longrightarrow> r = Some (v, c') \<Longrightarrow> fm = Some (v, stdin c')"
  by auto

lemma loop_returns:
  "map_option (\<lambda>(v, c'). (v, stdin c')) r = fm \<Longrightarrow> fm \<noteq> None \<Longrightarrow> \<exists>x. r = Some x"
  by (cases r) auto

lemma first_match_exists: "\<exists>x\<in>set xs. P x \<Longrightarrow> first_match P xs \<noteq> None"
  by (simp add: first_match_None)

lemma get_mode_from_user_first:
  "map_option (\<lambda>(v, c'). (v, stdin c')) (get_mode_from_user k c) =
     first_match (\<lambda>x. x \<in> set (Mode_LIST k)) (stdin c)"
  by (simp add: get_mode_from_user_def get_mode_loop_first stdin_print)

lemma get_msgtype_from_user_first:
  "map_option (\<lambda>(v, c'). (v, stdin c')) (get_msgtype_from_user k c) =
     first_match (\<lambda>x. x \<in> set (MessageType_LIST k)) (stdin c)"
  by (simp add: get_msgtype_from_user_def get_msgtype_loop_first stdin_print)

lemma get_text_from_user_first:
  "map_option (\<lambda>(v, c'). (v, stdin c')) (get_text_from_user c) =
     first_match (\<lambda>x. x \<noteq> '''') (stdin c)"
  by (simp add: get_text_from_user_def get_text_loop_first stdin_print)

lemma get_file_from_user_first:
  "map_option (\<lambda>(v, c'). (v, stdin c')) (get_file_from_user search_rsc c) =
     map_option (\<lambda>(filename, rest). (the (search_rsc filename), rest))
       (first_match (\<lambda>x. search_rsc x \<noteq> None) (stdin c))"
  by (simp add: get_file_from_user_def get_file_loop_first stdin_print)

lemma get_dst_from_user_first:
  "map_option (\<lambda>(v, c'). (v, stdin c')) (get_dst_from_user self c) =
     map_option (\<lambda>(dev, rest). (''1'' @ dev @ ''300'', rest))
       (first_match (\<lambda>x. fullmatch_1_9 x \<and> x \<noteq> device_id self) (stdin c))"
  by (simp add: get_dst_from_user_def get_dst_loop_first stdin_print)

lemma get_mode_from_user_valid:
  assumes "get_mode_from_user k c = Some (v, c')"
  shows "v \<in> set (Mode_LIST k)
         \<and> (\<exists>pre. stdin c = pre @ v # stdin c' \<and> (\<forall>x\<in>set pre. x \<notin> set (Mode_LIST k)))"
  using loop_result [OF get_mode_from_user_first assms]
  unfolding first_match_Some by blast

lemma get_msgtype_from_user_valid:
  assumes "get_msgtype_from_user k c = Some (v, c')"
  shows "v \<in> set (MessageType_LIST k)
         \<and> (\<exists>pre. stdin c = pre @ v # stdin c' \<and> (\<forall>x\<in>set pre. x \<notin> set (MessageType_LIST k)))"
  using loop_result [OF get_msgtype_from_user_first assms]
  unfolding first_match_Some by blast

lemma get_text_from_user_valid:
  assumes "get_text_from_user c = Some (v, c')"
  shows "v \<noteq> '''' \<and> (\<exists>pre. stdin c = pre @ v # stdin c' \<and> (\<forall>x\<in>set pre. x = ''''))"
  using loop_result [OF get_text_from_user_first assms]
  unfolding first_match_Some by blast

lemma get_file_from_user_path:
  assumes "get_file_from_user search_rsc c = Some (v, c')"
  shows "\<exists>pre filename. stdin c = pre @ filename # stdin c' \<and> search_rsc filename = Some v
           \<and> (\<forall>x\<in>set pre. search_rsc x = None)"
proof -
  from loop_result [OF get_file_from_user_first assms]
  obtain filename where
    fm: "first_match (\<lambda>x. search_rsc x \<noteq> None) (stdin c) = Some (filename, stdin c')"
    and v: "v = the (search_rsc filename)"
    by auto
  from fm obtain pre where "stdin c = pre @ filename # stdin c'" "search_rsc filename \<noteq> None"
    "\<forall>x\<in>set pre. search_rsc x = None"
    unfolding first_match_Some by auto
  with v show ?thesis by auto
qed

lemma get_dst_from_user_valid:
  assumes "get_dst_from_user self c = Some (addr, c')"
  shows "\<exists>pre dev. stdin c = pre @ dev # stdin c' \<and> fullmatch_1_9 dev \<and> dev \<noteq> device_id self
           \<and> addr = ''1'' @ dev @ ''300'' \<and> addr \<noteq> ''1'' @ device_id self @ ''300''
           \<and> (\<forall>x\<in>set pre. \<not> fullmatch_1_9 x \<or> x = device_id self)"
proof -
  from loop_result [OF get_dst_from_user_first assms]
  obtain dev where
    fm: "first_match (\<lambda>x. fullmatch_1_9 x \<and> x \<noteq> device_id self) (stdin c) = Some (dev, stdin c')"
    and addr: "addr = ''1'' @ dev @ ''300''"
    by auto
  from fm obtain pre where "stdin c = pre @ dev # stdin c'" "fullmatch_1_9 dev"
    "dev \<noteq> device_id self" "\<forall>x\<in>set pre. \<not> fullmatch_1_9 x \<or> x = device_id self"
    unfolding first_match_Some by auto
  with addr show ?thesis by auto
qed

lemma fullmatch_1_9_iff:
  "fullmatch_1_9 dev \<longleftrightarrow>
     dev \<in> set (map (\<lambda>ch. [ch]) ''123456789'')"
  by (auto simp: fullmatch_1_9_def split: list.splits)

lemma get_dst_from_user_accepts:
  assumes "fullmatch_1_9 dev \<and> dev \<noteq> device_id self"
  shows "\<exists>c'. get_dst_from_user self (c\<lparr>stdin := dev # rest\<rparr>) = Some (''1'' @ dev @ ''300'', c')
           \<and> stdin c' = rest"
proof -
  from assms
  have "map_option (\<lambda>(v, c'). (v, stdin c')) (get_dst_from_user self (c\<lparr>stdin := dev # rest\<rparr>))
          = Some (''1'' @ dev @ ''300'', rest)"
    by (simp add: get_dst_from_user_first)
  then show ?thesis by auto
qed

lemma get_dst_from_user_rejects:
  assumes "\<not> fullmatch_1_9 dev \<or> dev = device_id self"
  shows "map_option (\<lambda>(v, c'). (v, stdin c')) (get_dst_from_user self (c\<lparr>stdin := dev # rest\<rparr>))
         = map_option (\<lambda>(v, c'). (v, stdin c')) (get_dst_from_user self (c\<lparr>stdin := rest\<rparr>))"
  using assms by (auto simp: get_dst_from_user_first)

lemma card_destinations:
  assumes "fullmatch_1_9 own"
  shows "card {dev. fullmatch_1_9 dev \<and> dev \<noteq> own} = 8"
proof -
  let ?ids = "map (\<lambda>ch. [ch]) ''123456789''"
  have "{dev. fullmatch_1_9 dev \<and> dev \<noteq> own} = set ?ids - {own}"
    unfolding fullmatch_1_9_iff by blast
  moreover have "own \<in> set ?ids"
    using assms unfolding fullmatch_1_9_iff .
  moreover have "card (set ?ids) = 9"
    by (simp add: card_insert_if)
  ultimately show ?thesis by simp
qed

text \<open>
  C7. The destination prompt returns only for a line that is a single digit from \<open>1\<close> to
  \<open>9\<close> (the test \<open>fullmatch_1_9\<close> holds exactly of the nine one-digit strings, so not of
  a non-digit, a line of several characters, or \<open>0\<close>) and that differs from the local
  device identifier; the lines before it were refused, and a refused line leaves the
  prompt as it is for the lines after it. Each of the other eight identifiers is
  accepted; the value returned is \<open>1\<close>, the identifier, \<open>300\<close>, which is never the
  address that this formula gives to the local device's own identifier.
\<close>

theorem destination_prompt:
  "(get_dst_from_user self c = Some (addr, c') \<longrightarrow>
      (\<exists>pre dev. stdin c = pre @ dev # stdin c' \<and> fullmatch_1_9 dev \<and> dev \<noteq> device_id self
         \<and> addr = ''1'' @ dev @ ''300'' \<and> addr \<noteq> ''1'' @ device_id self @ ''300''
         \<and> (\<forall>x\<in>set pre. \<not> fullmatch_1_9 x \<or> x = device_id self)))
   \<and> (fullmatch_1_9 d \<longleftrightarrow> d \<in> set (map (\<lambda>ch. [ch]) ''123456789''))
   \<and> (fullmatch_1_9 d \<and> d \<noteq> device_id self \<longrightarrow>
        (\<exists>c'. get_dst_from_user self (c\<lparr>stdin := d # rest\<rparr>) = Some (''1'' @ d @ ''300'', c')
           \<and> stdin c' = rest))
   \<and> (\<not> fullmatch_1_9 d \<or> d = device_id self \<longrightarrow>
        map_option (\<lambda>(v, c'). (v, stdin c')) (get_dst_from_user self (c\<lparr>stdin := d # rest\<rparr>))
        = map_option (\<lambda>(v, c'). (v, stdin c')) (get_dst_from_user self (c\<lparr>stdin := rest\<rparr>)))
   \<and> (fullmatch_1_9 (device_id self) \<longrightarrow>
        card {dev. fullmatch_1_9 dev \<and> dev \<noteq> device_id self} = 8)"
proof (intro conjI impI)
  assume "get_dst_from_user self c = Some (addr, c')"
  then show "\<exists>pre dev. stdin c = pre @ dev # stdin c' \<and> fullmatch_1_9 dev \<and> dev \<noteq> device_id self
         \<and> addr = ''1'' @ dev @ ''300'' \<and> addr \<noteq> ''1'' @ device_id self @ ''300''
         \<and> (\<forall>x\<in>set pre. \<not> fullmatch_1_9 x \<or> x = device_id self)"
    by (rule get_dst_from_user_valid)
next
  show "fullmatch_1_9 d \<longleftrightarrow> d \<in> set (map (\<lambda>ch. [ch]) ''123456789'')"
    by (rule fullmatch_1_9_iff)
next
  assume "fullmatch_1_9 d \<and> d \<noteq> device_id self"
  then show "\<exists>c'. get_dst_from_user self (c\<lparr>stdin := d # rest\<rparr>) = Some (''1'' @ d @ ''300'', c')
           \<and> stdin c' = rest"
    by (rule get_dst_from_user_accepts)
next
  assume "\<not> fullmatch_1_9 d \<or> d = device_id self"
  then show "map_option (\<lambda>(v, c'). (v, stdin c')) (get_dst_from_user self (c\<lparr>stdin := d # rest\<rparr>))
        = map_option (\<lambda>(v, c'). (v, stdin c')) (get_dst_from_user self (c\<lparr>stdin := rest\<rparr>))"
    by (rule get_dst_from_user_rejects)
next
  assume "fullmatch_1_9 (device_id self)"
  then show "card {dev. fullmatch_1_9 dev \<and> dev \<noteq> device_id self} = 8"
    by (rule card_destinations)
qed

theorem destination_prompt_witness:
  "get_dst_from_user example_app (example_console [''0'', ''1'', ''2'', ''7''] [])
     = Some (''12300'', example_console [''7'']
         [''Input destination device ID:'', ''>>> '',
          ''[Warning] ID should be an integer between 1 and 9.'', ''>>> '',
          ''[Warning] This is my ID.'', ''>>> ''])
   \<and> (\<exists>pre dev. stdin (example_console [''0'', ''1'', ''2'', ''7''] [])
          = pre @ dev # stdin (example_console [''7'']
              [''Input destination device ID:'', ''>>> '',
               ''[Warning] ID should be an integer between 1 and 9.'', ''>>> '',
               ''[Warning] This is my ID.'', ''>>> ''])
        \<and> fullmatch_1_9 dev \<and> dev \<noteq> device_id example_app
        \<and> ''12300'' = ''1'' @ dev @ ''300'' \<and> ''12300'' \<noteq> ''1'' @ device_id example_app @ ''300''
        \<and> (\<forall>x\<in>set pre. \<not> fullmatch_1_9 x \<or> x = device_id example_app))
   \<and> fullmatch_1_9 ''2'' \<and> ''2'' \<noteq> device_id example_app
   \<and> (\<exists>c'. get_dst_from_user example_app ((example_console [] [])\<lparr>stdin := ''2'' # [''7'']\<rparr>)
          = Some (''1'' @ ''2'' @ ''300'', c') \<and> stdin c' = [''7''])
   \<and> \<not> fullmatch_1_9 ''0'' \<and> \<not> fullmatch_1_9 ''12'' \<and> \<not> fullmatch_1_9 ''a''
   \<and> map_option (\<lambda>(v, c'). (v, stdin c'))
        (get_dst_from_user example_app ((example_console [] [])\<lparr>stdin := ''0'' # [''7'']\<rparr>))
      = map_option (\<lambda>(v, c'). (v, stdin c'))
        (get_dst_from_user example_app ((example_console [] [])\<lparr>stdin := [''7'']\<rparr>))
   \<and> map_option (\<lambda>(v, c'). (v, stdin c'))
        (get_dst_from_user example_app ((example_console [] [])\<lparr>stdin := ''1'' # [''7'']\<rparr>))
      = map_option (\<lambda>(v, c'). (v, stdin c'))
        (get_dst_from_user example_app ((example_console [] [])\<lparr>stdin := [''7'']\<rparr>))
   \<and> fullmatch_1_9 (device_id example_app)
   \<and> card {dev. fullmatch_1_9 dev \<and> dev \<noteq> device_id example_app} = 8"
proof -
  let ?out = "[''Input destination device ID:'', ''>>> '',
          ''[Warning] ID should be an integer between 1 and 9.'', ''>>> '',
          ''[Warning] This is my ID.'', ''>>> '']"
  have r1: "get_dst_from_user example_app (example_console [''0'', ''1'', ''2'', ''7''] [])
              = Some (''12300'', example_console [''7''] ?out)"
    by (simp add: get_dst_from_user_def get_dst_loop.simps input_def print_def
          fullmatch_1_9_def example_console_def example_app_def)
  have h3: "fullmatch_1_9 ''2'' \<and> ''2'' \<noteq> device_id example_app"
    by (simp add: fullmatch_1_9_def example_app_def)
  have n0: "\<not> fullmatch_1_9 ''0''" and n12: "\<not> fullmatch_1_9 ''12''" and na: "\<not> fullmatch_1_9 ''a''"
    by (simp_all add: fullmatch_1_9_def)
  have h4: "\<not> fullmatch_1_9 ''0'' \<or> ''0'' = device_id example_app"
    using n0 by simp
  have h4': "\<not> fullmatch_1_9 ''1'' \<or> ''1'' = device_id example_app"
    by (simp add: example_app_def)
  have h5: "fullmatch_1_9 (device_id example_app)"
    by (simp add: fullmatch_1_9_def example_app_def)
  note c1 = destination_prompt [where self = example_app
      and c = "example_console [''0'', ''1'', ''2'', ''7''] []" and addr = "''12300''"
      and c' = "example_console [''7''] ?out", THEN conjunct1, THEN mp, OF r1]
  note c3 = destination_prompt [where self = example_app and c = "example_console [] []"
      and d = "''2''" and rest = "[''7'']",
      THEN conjunct2, THEN conjunct2, THEN conjunct1, THEN mp, OF h3]
  note c4 = destination_prompt [where self = example_app and c = "example_console [] []"
      and d = "''0''" and rest = "[''7'']",
      THEN conjunct2, THEN conjunct2, THEN conjunct2, THEN conjunct1, THEN mp, OF h4]
  note c4' = destination_prompt [where self = example_app and c = "example_console [] []"
      and d = "''1''" and rest = "[''7'']",
      THEN conjunct2, THEN conjunct2, THEN conjunct2, THEN conjunct1, THEN mp, OF h4']
  note c5 = destination_prompt [where self = example_app,
      THEN conjunct2, THEN conjunct2, THEN conjunct2, THEN conjunct2, THEN mp, OF h5]
  show ?thesis
    by (intro conjI) (rule r1 c1 h3 [THEN conjunct1] h3 [THEN conjunct2] c3 n0 n12 na c4 c4' h5 c5)+
qed

text \<open>
  C8. Each validator returns only a valid value, the first valid line typed, after
  refusing the lines before it; and it does return once a valid line is typed. The mode
  is one of the codes of \<open>Mode.LIST\<close>, the message kind one of the codes of
  \<open>MessageType.LIST\<close>, the text is not empty, and the file value is what \<open>search_rsc\<close>
  found for a line typed. No validator has an error among its results.
\<close>

theorem validators_return_valid:
  "(get_mode_from_user k c = Some (v, c') \<longrightarrow>
      v \<in> set (Mode_LIST k)
      \<and> (\<exists>pre. stdin c = pre @ v # stdin c' \<and> (\<forall>x\<in>set pre. x \<notin> set (Mode_LIST k))))
   \<and> (get_msgtype_from_user k c = Some (v, c') \<longrightarrow>
      v \<in> set (MessageType_LIST k)
      \<and> (\<exists>pre. stdin c = pre @ v # stdin c' \<and> (\<forall>x\<in>set pre. x \<notin> set (MessageType_LIST k))))
   \<and> (get_text_from_user c = Some (v, c') \<longrightarrow>
      v \<noteq> '''' \<and> (\<exists>pre. stdin c = pre @ v # stdin c' \<and> (\<forall>x\<in>set pre. x = '''')))
   \<and> (get_file_from_user search_rsc c = Some (v, c') \<longrightarrow>
      (\<exists>filename\<in>set (stdin c). search_rsc filename = Some v))
   \<and> ((\<exists>x\<in>set (stdin c). x \<in> set (Mode_LIST k)) \<longrightarrow> (\<exists>r. get_mode_from_user k c = Some r))
   \<and> ((\<exists>x\<in>set (stdin c). x \<in> set (MessageType_LIST k)) \<longrightarrow>
        (\<exists>r. get_msgtype_from_user k c = Some r))
   \<and> ((\<exists>x\<in>set (stdin c). x \<noteq> '''') \<longrightarrow> (\<exists>r. get_text_from_user c = Some r))
   \<and> ((\<exists>x\<in>set (stdin c). search_rsc x \<noteq> None) \<longrightarrow>
        (\<exists>r. get_file_from_user search_rsc c = Some r))"
proof (intro conjI impI)
  assume "get_mode_from_user k c = Some (v, c')"
  from get_mode_from_user_valid [OF this]
  show "v \<in> set (Mode_LIST k)"
    and "\<exists>pre. stdin c = pre @ v # stdin c' \<and> (\<forall>x\<in>set pre. x \<notin> set (Mode_LIST k))"
    by blast+
next
  assume "get_msgtype_from_user k c = Some (v, c')"
  from get_msgtype_from_user_valid [OF this]
  show "v \<in> set (MessageType_LIST k)"
    and "\<exists>pre. stdin c = pre @ v # stdin c' \<and> (\<forall>x\<in>set pre. x \<notin> set (MessageType_LIST k))"
    by blast+
next
  assume "get_text_from_user c = Some (v, c')"
  from get_text_from_user_valid [OF this]
  show "v \<noteq> ''''" and "\<exists>pre. stdin c = pre @ v # stdin c' \<and> (\<forall>x\<in>set pre. x = '''')"
    by blast+
next
  assume "get_file_from_user search_rsc c = Some (v, c')"
  from get_file_from_user_path [OF this]
  show "\<exists>filename\<in>set (stdin c). search_rsc filename = Some v"
    by auto
next
  assume "\<exists>x\<in>set (stdin c). x \<in> set (Mode_LIST k)"
  then show "\<exists>r. get_mode_from_user k c = Some r"
    by (intro loop_returns [OF get_mode_from_user_first] first_match_exists)
next
  assume "\<exists>x\<in>set (stdin c). x \<in> set (MessageType_LIST k)"
  then show "\<exists>r. get_msgtype_from_user k c = Some r"
    by (intro loop_returns [OF get_msgtype_from_user_first] first_match_exists)
next
  assume "\<exists>x\<in>set (stdin c). x \<noteq> ''''"
  then show "\<exists>r. get_text_from_user c = Some r"
    by (intro loop_returns [OF get_text_from_user_first] first_match_exists)
next
  assume "\<exists>x\<in>set (stdin c). search_rsc x \<noteq> None"
  then have "first_match (\<lambda>x. search_rsc x \<noteq> None) (stdin c) \<noteq> None"
    by (rule first_match_exists)
  then show "\<exists>r. get_file_from_user search_rsc c = Some r"
    by (intro loop_returns [OF get_file_from_user_first]) simp
qed

theorem validators_return_valid_witness:
  "get_mode_from_user example_constants (example_console [''9'', ''2'', ''x''] [])
     = Some (''2'', example_console [''x'']
         [mode_menu, ''>>> '', ''[Warning] Invalid mode.'', ''>>> ''])
   \<and> ''2'' \<in> set (Mode_LIST example_constants)
   \<and> (\<exists>pre. stdin (example_console [''9'', ''2'', ''x''] [])
          = pre @ ''2'' # stdin (example_console [''x'']
              [mode_menu, ''>>> '', ''[Warning] Invalid mode.'', ''>>> ''])
        \<and> (\<forall>x\<in>set pre. x \<notin> set (Mode_LIST example_constants)))
   \<and> get_msgtype_from_user example_constants (example_console [''3'', ''1''] [])
     = Some (''1'', example_console []
         [''Input message type:'' @ [CHR 0x0A] @ ''1::Text  2::File'', ''>>> '',
          ''[Warning] Invalid message type!'', ''>>> ''])
   \<and> ''1'' \<in> set (MessageType_LIST example_constants)
   \<and> (\<exists>pre. stdin (example_console [''3'', ''1''] [])
          = pre @ ''1'' # stdin (example_console []
              [''Input message type:'' @ [CHR 0x0A] @ ''1::Text  2::File'', ''>>> '',
               ''[Warning] Invalid message type!'', ''>>> ''])
        \<and> (\<forall>x\<in>set pre. x \<notin> set (MessageType_LIST example_constants)))
   \<and> get_text_from_user (example_console ['''', ''hi''] [])
     = Some (''hi'', example_console [] [''Input a piece of message:'', ''>>> '', ''>>> ''])
   \<and> ''hi'' \<noteq> ''''
   \<and> (\<exists>pre. stdin (example_console ['''', ''hi''] [])
          = pre @ ''hi'' # stdin (example_console []
              [''Input a piece of message:'', ''>>> '', ''>>> ''])
        \<and> (\<forall>x\<in>set pre. x = ''''))
   \<and> get_file_from_user example_search_rsc (example_console [''bar.png'', ''foo.png''] [])
     = Some (''/home/cnt/rsc/foo.png'', example_console []
         [''Input file name: (i.e. foo.png)'', ''>>> '', ''[Warning] None not found.'', ''>>> ''])
   \<and> (\<exists>filename\<in>set (stdin (example_console [''bar.png'', ''foo.png''] [])).
         example_search_rsc filename = Some ''/home/cnt/rsc/foo.png'')
   \<and> (\<exists>r. get_mode_from_user example_constants (example_console [''9'', ''2'', ''x''] []) = Some r)
   \<and> (\<exists>r. get_msgtype_from_user example_constants (example_console [''3'', ''1''] []) = Some r)
   \<and> (\<exists>r. get_text_from_user (example_console ['''', ''hi''] []) = Some r)
   \<and> (\<exists>r. get_file_from_user example_search_rsc (example_console [''bar.png'', ''foo.png''] [])
          = Some r)"
proof -
  let ?cm = "example_console [''9'', ''2'', ''x''] []"
  let ?cm' = "example_console [''x''] [mode_menu, ''>>> '', ''[Warning] Invalid mode.'', ''>>> '']"
  let ?ck = "example_console [''3'', ''1''] []"
  let ?ck' = "example_console []
         [''Input message type:'' @ [CHR 0x0A] @ ''1::Text  2::File'', ''>>> '',
          ''[Warning] Invalid message type!'', ''>>> '']"
  let ?ct = "example_console ['''', ''hi''] []"
  let ?ct' = "example_console [] [''Input a piece of message:'', ''>>> '', ''>>> '']"
  let ?cf = "example_console [''bar.png'', ''foo.png''] []"
  let ?cf' = "example_console []
         [''Input file name: (i.e. foo.png)'', ''>>> '', ''[Warning] None not found.'', ''>>> '']"
  have r1: "get_mode_from_user example_constants ?cm = Some (''2'', ?cm')"
    by (simp add: get_mode_from_user_def get_mode_loop.simps input_def print_def
          example_console_def example_constants_def)
  have r2: "get_msgtype_from_user example_constants ?ck = Some (''1'', ?ck')"
    by (simp add: get_msgtype_from_user_def get_msgtype_loop.simps input_def print_def
          example_console_def example_constants_def)
  have r3: "get_text_from_user ?ct = Some (''hi'', ?ct')"
    by (simp add: get_text_from_user_def get_text_loop.simps input_def print_def
          example_console_def)
  have r4: "get_file_from_user example_search_rsc ?cf = Some (''/home/cnt/rsc/foo.png'', ?cf')"
    by (simp add: get_file_from_user_def get_file_loop.simps input_def print_def
          example_console_def example_search_rsc_def)
  have h5: "\<exists>x\<in>set (stdin ?cm). x \<in> set (Mode_LIST example_constants)"
    by (simp add: example_console_def example_constants_def)
  have h6: "\<exists>x\<in>set (stdin ?ck). x \<in> set (MessageType_LIST example_constants)"
    by (simp add: example_console_def example_constants_def)
  have h7: "\<exists>x\<in>set (stdin ?ct). x \<noteq> ''''"
    by (simp add: example_console_def)
  have h8: "\<exists>x\<in>set (stdin ?cf). example_search_rsc x \<noteq> None"
    by (simp add: example_console_def example_search_rsc_def)
  note c1 = validators_return_valid [where k = example_constants and c = ?cm and v = "''2''"
      and c' = ?cm', THEN conjunct1, THEN mp, OF r1]
  note c2 = validators_return_valid [where k = example_constants and c = ?ck and v = "''1''"
      and c' = ?ck', THEN conjunct2, THEN conjunct1, THEN mp, OF r2]
  note c3 = validators_return_valid [where c = ?ct and v = "''hi''" and c' = ?ct',
      THEN conjunct2, THEN conjunct2, THEN conjunct1, THEN mp, OF r3]
  note c4 = validators_return_valid [where search_rsc = example_search_rsc and c = ?cf
      and v = "''/home/cnt/rsc/foo.png''" and c' = ?cf',
      THEN conjunct2, THEN conjunct2, THEN conjunct2, THEN conjunct1, THEN mp, OF r4]
  note c5 = validators_return_valid [where k = example_constants and c = ?cm,
      THEN conjunct2, THEN conjunct2, THEN conjunct2, THEN conjunct2, THEN conjunct1,
      THEN mp, OF h5]
  note c6 = validators_return_valid [where k = example_constants and c = ?ck,
      THEN conjunct2, THEN conjunct2, THEN conjunct2, THEN conjunct2, THEN conjunct2,
      THEN conjunct1, THEN mp, OF h6]
  note c7 = validators_return_valid [where c = ?ct,
      THEN conjunct2, THEN conjunct2, THEN conjunct2, THEN conjunct2, THEN conjunct2,
      THEN conjunct2, THEN conjunct1, THEN mp, OF h7]
  note c8 = validators_return_valid [where search_rsc = example_search_rsc and c = ?cf,
      THEN conjunct2, THEN conjunct2, THEN conjunct2, THEN conjunct2, THEN conjunct2,
      THEN conjunct2, THEN conjunct2, THEN mp, OF h8]
  show ?thesis
    by (intro conjI)
       (rule r1 c1 [THEN conjunct1] c1 [THEN conjunct2] r2 c2 [THEN conjunct1] c2 [THEN conjunct2]
          r3 c3 [THEN conjunct1] c3 [THEN conjunct2] r4 c4 c5 c6 c7 c8)+
qed

text \<open>
  C9. With an \<open>input_type\<close> that is none of the five documented categories,
  \<open>receive_from_user\<close> returns the empty string at once: nothing is written to the
  console and no line is read.
\<close>

theorem receive_from_user_other:
  "input_type \<notin> {MODE, DST, MSGTYPE, TEXT, FILE} \<Longrightarrow>
   receive_from_user k search_rsc self input_type c = Some ('''', c)"
  by (simp add: receive_from_user_def)

theorem receive_from_user_other_witness:
  "Other ''COLOR'' \<notin> {MODE, DST, MSGTYPE, TEXT, FILE}
   \<and> receive_from_user example_constants example_search_rsc example_app (Other ''COLOR'')
        (example_console [''1''] [])
      = Some ('''', example_console [''1''] [])"
proof -
  have h: "Other ''COLOR'' \<notin> {MODE, DST, MSGTYPE, TEXT, FILE}"
    by simp
  note c = receive_from_user_other [OF h, of example_constants example_search_rsc example_app
      "example_console [''1''] []"]
  show ?thesis
    by (intro conjI) (rule h c)+
qed

text \<open>
  C10. Whenever the file validator returns, the value returned is what \<open>search_rsc\<close>
  resolved for the line just read (the path found, where the line itself is the file
  name typed), and it is a value other than Python's \<open>None\<close>; the lines read before it
  had no resource.
\<close>

theorem file_validator_returns_path:
  "get_file_from_user search_rsc c = Some (v, c') \<Longrightarrow>
   \<exists>pre filename. stdin c = pre @ filename # stdin c' \<and> search_rsc filename = Some v
     \<and> (\<forall>x\<in>set pre. search_rsc x = None)"
  by (rule get_file_from_user_path)

theorem file_validator_returns_path_witness:
  "get_file_from_user example_search_rsc (example_console [''bar.png'', ''foo.png'', ''baz''] [])
     = Some (''/home/cnt/rsc/foo.png'', example_console [''baz'']
         [''Input file name: (i.e. foo.png)'', ''>>> '', ''[Warning] None not found.'', ''>>> ''])
   \<and> (\<exists>pre filename. stdin (example_console [''bar.png'', ''foo.png'', ''baz''] [])
          = pre @ filename # stdin (example_console [''baz'']
              [''Input file name: (i.e. foo.png)'', ''>>> '', ''[Warning] None not found.'',
               ''>>> ''])
        \<and> example_search_rsc filename = Some ''/home/cnt/rsc/foo.png''
        \<and> (\<forall>x\<in>set pre. example_search_rsc x = None))
   \<and> ''/home/cnt/rsc/foo.png'' \<noteq> ''foo.png''"
proof -
  have r: "get_file_from_user example_search_rsc
             (example_console [''bar.png'', ''foo.png'', ''baz''] [])
     = Some (''/home/cnt/rsc/foo.png'', example_console [''baz'']
         [''Input file name: (i.e. foo.png)'', ''>>> '', ''[Warning] None not found.'', ''>>> ''])"
    by (simp add: get_file_from_user_def get_file_loop.simps input_def print_def
          example_console_def example_search_rsc_def)
  note c = file_validator_returns_path [OF r]
  have n: "''/home/cnt/rsc/foo.png'' \<noteq> ''foo.png''"
    by simp
  show ?thesis
    by (intro conjI) (rule r c n)+
qed

end
